theory Spec2Isabelle
  imports Main
begin

section \<open>Values, promises and exceptions\<close>

text \<open>
  The program is an asynchronous TypeScript module (\<^verbatim>\<open>src/index.ts\<close>). Two kinds of failure
  occur in it and they are kept apart, because a \<^verbatim>\<open>try/catch\<close> without \<^verbatim>\<open>await\<close> sees only one
  of them:
  \<^item> a synchronous call either returns a value or throws (\<open>completion\<close>);
  \<^item> a promise is eventually fulfilled with a value or rejected with an error (\<open>settled\<close>).
  An \<^verbatim>\<open>await\<close> of a rejected promise throws inside the enclosing async function, whose own
  promise is then rejected unless a \<^verbatim>\<open>catch\<close> surrounds the \<^verbatim>\<open>await\<close>.
\<close>

datatype error = Error (message: string)

datatype 'a completion = Returned 'a | Thrown error

datatype 'a settled = Fulfilled 'a | Rejected error

definition nl :: string where
  "nl = [CHR 0x0A]"

definition dquote :: string where
  "dquote = [CHR 0x22]"

text \<open>\<^verbatim>\<open>Number.prototype.toString()\<close> on a non-negative integer: its decimal digits.\<close>

definition digit_char :: "nat \<Rightarrow> char" where
  "digit_char d = ''0123456789'' ! d"

fun toString :: "nat \<Rightarrow> string" where
  "toString n =
     (if n < 10 then [digit_char n] else toString (n div 10) @ [digit_char (n mod 10)])"

declare toString.simps [simp del]

text \<open>The value a decimal digit string denotes (used only to state what \<open>toString\<close> yields).\<close>

definition digit_value :: "char \<Rightarrow> nat" where
  "digit_value c = of_char c - 48"

definition decimal_value :: "string \<Rightarrow> nat" where
  "decimal_value s = foldl (\<lambda>acc c. 10 * acc + digit_value c) 0 s"

text \<open>\<^verbatim>\<open>Array.prototype.join\<close> on an array of strings.\<close>

fun js_join :: "string \<Rightarrow> string list \<Rightarrow> string" where
  "js_join sep [] = []"
| "js_join sep [x] = x"
| "js_join sep (x # y # ys) = x @ sep @ js_join sep (y # ys)"

text \<open>
  \<^verbatim>\<open>Array.prototype.slice(0, end)\<close> for an integer \<^verbatim>\<open>end\<close>: a negative \<^verbatim>\<open>end\<close> counts from the
  end of the array, a non-negative one is capped at the length.
\<close>

definition js_slice0 :: "'a list \<Rightarrow> int \<Rightarrow> 'a list" where
  "js_slice0 xs end =
     (let len = int (length xs);
          final = (if end < 0 then max (len + end) 0 else min end len)
      in take (nat final) xs)"

text \<open>
  \<^verbatim>\<open>Promise.all\<close>: fulfilled with all values in array order when every element is fulfilled,
  rejected otherwise. (JavaScript rejects with the rejection that happens first in time; the
  model takes the first one in array order. No statement below depends on which error it is.)
\<close>

fun promise_all :: "'a settled list \<Rightarrow> 'a list settled" where
  "promise_all [] = Fulfilled []"
| "promise_all (Rejected e # ps) = Rejected e"
| "promise_all (Fulfilled v # ps) =
     (case promise_all ps of
        Rejected e \<Rightarrow> Rejected e
      | Fulfilled vs \<Rightarrow> Fulfilled (v # vs))"

section \<open>Data model\<close>

text \<open>
  The four display fields shared by the note detail parsed from the Document Source
  (\<^verbatim>\<open>JSON.parse\<close> of \<^verbatim>\<open>"{}"\<close> leaves every field \<^verbatim>\<open>undefined\<close>, hence \<open>string option\<close>) and by
  a search hit selected from the table (typed by the table's Utf8 schema, hence \<open>string\<close>).
\<close>

record 'f note_fields =
  title :: 'f
  content :: 'f
  creation_date :: 'f
  modification_date :: 'f

type_synonym detail = "string option note_fields"

type_synonym hit = "string note_fields"

text \<open>The record \<^verbatim>\<open>indexNotes\<close> hands to \<^verbatim>\<open>notesTable.add\<close> (\<^verbatim>\<open>id\<close> is \<open>id_chunk\<close> here).\<close>

record chunk = "string option note_fields" +
  id_chunk :: string

text \<open>The object literal \<^verbatim>\<open>{}\<close> that the \<^verbatim>\<open>catch\<close> branch of the fetch callback returns.\<close>

definition empty_detail :: detail where
  "empty_detail =
     \<lparr>title = None, content = None, creation_date = None, modification_date = None\<rparr>"

text \<open>JavaScript truthiness of a possibly missing string: \<^verbatim>\<open>undefined\<close> and \<^verbatim>\<open>""\<close> are falsy.\<close>

fun truthy :: "string option \<Rightarrow> bool" where
  "truthy None = False"
| "truthy (Some s) = (s \<noteq> [])"

text \<open>\<^verbatim>\<open>s || d\<close> for a possibly missing string \<^verbatim>\<open>s\<close> and a default \<^verbatim>\<open>d\<close>.\<close>

definition js_or :: "string option \<Rightarrow> string \<Rightarrow> string" where
  "js_or s d = (if truthy s then the s else d)"

record index_report =
  chunks :: nat
  report :: string
  allNotes :: nat

text \<open>
  The elapsed-time field \<^verbatim>\<open>time\<close> of the returned objects is a difference of two
  floating-point clock readings and is left out of the model.
\<close>

section \<open>The table handle\<close>

record index_info =
  idx_name :: string
  idx_column :: string

record table =
  rows :: "chunk list"
  indices :: "index_info list"

section \<open>External collaborators of the indexing pipeline\<close>

text \<open>
  What lies outside \<^verbatim>\<open>src/index.ts\<close> is a parameter:
  \<^item> \<open>jxa_titles\<close>: how the promise of the title-listing script settles; a fulfilled promise
    may carry a missing value (\<open>None\<close>);
  \<^item> \<open>jxa_note\<close>: for each title, how the detail script followed by \<^verbatim>\<open>JSON.parse\<close> settles;
  \<^item> \<open>turndown\<close>: the synchronous HTML-to-Markdown converter, which may throw;
  \<^item> \<open>add_failure\<close>: whether the bulk insert of a given chunk list fails.
\<close>

record env =
  jxa_titles :: "string list option settled"
  jxa_note :: "string \<Rightarrow> detail settled"
  turndown :: "string \<Rightarrow> string completion"
  add_failure :: "chunk list \<Rightarrow> error option"

text \<open>\<^verbatim>\<open>notesTable.add(chunks)\<close>: append-only; a failed insert leaves the table as it was.\<close>

definition table_add :: "env \<Rightarrow> chunk list \<Rightarrow> table \<Rightarrow> unit settled \<times> table" where
  "table_add E cs t =
     (case add_failure E cs of
        Some e \<Rightarrow> (Rejected e, t)
      | None \<Rightarrow> (Fulfilled (), t\<lparr>rows := rows t @ cs\<rparr>))"

section \<open>The indexing pipeline\<close>

text \<open>\<^verbatim>\<open>getNotes\<close> (lines 147-157): the awaited script result, cast to a string array.\<close>

definition getNotes :: "env \<Rightarrow> string list option settled" where
  "getNotes E = jxa_titles E"

text \<open>
  \<^verbatim>\<open>getNoteDetailsByTitle\<close> (lines 159-186) is declared \<^verbatim>\<open>async\<close>: a call of it always returns
  a promise and never throws synchronously; whatever goes wrong inside (the script, the
  \<^verbatim>\<open>JSON.parse\<close>) rejects that promise.
\<close>

definition getNoteDetailsByTitle :: "env \<Rightarrow> string \<Rightarrow> detail settled completion" where
  "getNoteDetailsByTitle E t = Returned (jxa_note E t)"

text \<open>
  The callback of \<^verbatim>\<open>allNotes.map\<close> (lines 193-200), run over the titles in order. It returns
  the promise without awaiting it; the \<^verbatim>\<open>catch\<close> branch runs only on a synchronous throw,
  appends the error line to \<^verbatim>\<open>report\<close> and returns \<^verbatim>\<open>{}\<close>, which \<^verbatim>\<open>Promise.all\<close> treats as a
  fulfilled element. The first component is \<^verbatim>\<open>report\<close> after the whole \<^verbatim>\<open>map\<close>.
\<close>

fun fetch_all :: "env \<Rightarrow> string \<Rightarrow> string list \<Rightarrow> string \<times> detail settled list" where
  "fetch_all E rep [] = (rep, [])"
| "fetch_all E rep (note # rest) =
     (case getNoteDetailsByTitle E note of
        Returned p \<Rightarrow>
          (let (rep', ps) = fetch_all E rep rest in (rep', p # ps))
      | Thrown e \<Rightarrow>
          (let (rep', ps) =
                 fetch_all E
                   (rep @ ''Error getting note details for '' @ note @ '': '' @ message e @ nl)
                   rest
           in (rep', Fulfilled empty_detail # ps)))"

text \<open>The first \<^verbatim>\<open>.map\<close> after the filter (lines 205-214): normalise, keep the node on a throw.\<close>

definition normalize_node :: "env \<Rightarrow> detail \<Rightarrow> detail" where
  "normalize_node E node =
     (case turndown E (js_or (content node) []) of
        Returned md \<Rightarrow> node\<lparr>content := Some md\<rparr>
      | Thrown e \<Rightarrow> node)"

text \<open>The second \<^verbatim>\<open>.map\<close> (lines 215-221): the chunk of a note at a position.\<close>

definition make_chunk :: "nat \<times> detail \<Rightarrow> chunk" where
  "make_chunk p =
     (case p of (index, note) \<Rightarrow>
        \<lparr>title = title note, content = content note,
         creation_date = creation_date note, modification_date = modification_date note,
         id_chunk = toString index\<rparr>)"

text \<open>Lines 203-221: filter on a truthy title, normalise, number.\<close>

definition build_chunks :: "env \<Rightarrow> detail list \<Rightarrow> chunk list" where
  "build_chunks E notesDetails =
     map make_chunk
       (enumerate 0 (map (normalize_node E) (filter (\<lambda>n. truthy (title n)) notesDetails)))"

text \<open>\<^verbatim>\<open>(await getNotes()) || []\<close> (line 191), once the promise is fulfilled.\<close>

fun or_nil :: "string list option \<Rightarrow> string list" where
  "or_nil None = []"
| "or_nil (Some ts) = ts"

text \<open>
  \<^verbatim>\<open>indexNotes\<close> up to the bulk insert (lines 189-221): either an \<^verbatim>\<open>await\<close> has thrown, or
  the function reaches \<^verbatim>\<open>notesTable.add(chunks)\<close> with the values of \<^verbatim>\<open>allNotes\<close>, \<^verbatim>\<open>report\<close>
  and \<^verbatim>\<open>chunks\<close>.
\<close>

definition indexNotes_chunks :: "env \<Rightarrow> (string list \<times> string \<times> chunk list) settled" where
  "indexNotes_chunks E =
     (case getNotes E of
        Rejected e \<Rightarrow> Rejected e
      | Fulfilled listed \<Rightarrow>
          (let all_titles = or_nil listed;
               (rep, promises) = fetch_all E [] all_titles
           in case promise_all promises of
                Rejected e \<Rightarrow> Rejected e
              | Fulfilled notesDetails \<Rightarrow>
                  Fulfilled (all_titles, rep, build_chunks E notesDetails)))"

text \<open>
  \<^verbatim>\<open>indexNotes\<close> (lines 188-231). The result is how the returned promise settles, with the
  table after the call.
\<close>

definition indexNotes :: "env \<Rightarrow> table \<Rightarrow> index_report settled \<times> table" where
  "indexNotes E notesTable =
     (case indexNotes_chunks E of
        Rejected e \<Rightarrow> (Rejected e, notesTable)
      | Fulfilled (all_titles, rep, cs) \<Rightarrow>
          (case table_add E cs notesTable of
             (Rejected e, t) \<Rightarrow> (Rejected e, t)
           | (Fulfilled u, t) \<Rightarrow>
               (Fulfilled \<lparr>chunks = length cs, report = rep, allNotes = length all_titles\<rparr>,
                t)))"

text \<open>The detail a fulfilled fetch carries (\<^verbatim>\<open>{}\<close> stands in where there is none).\<close>

fun detail_of :: "detail settled \<Rightarrow> detail" where
  "detail_of (Fulfilled d) = d"
| "detail_of (Rejected e) = empty_detail"

section \<open>The storage engine\<close>

text \<open>
  The storage engine (the database connection \<^verbatim>\<open>db\<close> and the table methods \<^verbatim>\<open>listIndices\<close>
  and \<^verbatim>\<open>createIndex\<close>) is an external library; its three operations that
  \<^verbatim>\<open>createNotesTable\<close> calls are modelled from sections 4.1 and 6 of the specification. A
  database is its tables by name, and the calls made to it so far, in order. A handle of a
  table is the table's name.
\<close>

datatype db_call = CreateEmptyTable string | ListIndices string | CreateIndex string string

record db =
  tables :: "string \<rightharpoonup> table"
  calls :: "db_call list"

text \<open>
  Modelled from the spec: the name the engine gives to an index over a field, which the
  repository does not contain. The index is named for its field: the field followed by
  \<^verbatim>\<open>_idx\<close>, which for the content field is the name the source looks for.
\<close>

definition index_name_for :: "string \<Rightarrow> string" where
  "index_name_for column = column @ ''_idx''"

text \<open>
  Modelled from the spec: \<^verbatim>\<open>db.createEmptyTable(name, schema, {mode: "create", existOk: true})\<close>
  of the external engine. It creates the named table, empty, when it does not exist, and
  otherwise returns the existing table without failing or altering it.
\<close>

definition createEmptyTable :: "db \<Rightarrow> string \<Rightarrow> string settled \<times> db" where
  "createEmptyTable D name =
     (let D' = D\<lparr>calls := calls D @ [CreateEmptyTable name]\<rparr>
      in case tables D name of
           Some t \<Rightarrow> (Fulfilled name, D')
         | None \<Rightarrow>
             (Fulfilled name, D'\<lparr>tables := (tables D)(name \<mapsto> \<lparr>rows = [], indices = []\<rparr>)\<rparr>))"

text \<open>
  Modelled from the spec: \<^verbatim>\<open>notesTable.listIndices()\<close> of the external engine, the secondary
  indices of the table with their names.
\<close>

definition listIndices :: "db \<Rightarrow> string \<Rightarrow> index_info list settled \<times> db" where
  "listIndices D handle =
     (let D' = D\<lparr>calls := calls D @ [ListIndices handle]\<rparr>
      in case tables D handle of
           None \<Rightarrow> (Rejected (Error ''Table not found''), D')
         | Some t \<Rightarrow> (Fulfilled (indices t), D'))"

text \<open>
  Modelled from the spec: \<^verbatim>\<open>notesTable.createIndex(column, {config, replace})\<close> of the external
  engine. With the replace policy an index of the same name is superseded; an index of a
  different name is left untouched.
\<close>

definition createIndex :: "db \<Rightarrow> string \<Rightarrow> string \<Rightarrow> bool \<Rightarrow> unit settled \<times> db" where
  "createIndex D handle column replace =
     (let D' = D\<lparr>calls := calls D @ [CreateIndex handle column]\<rparr>;
          new = \<lparr>idx_name = index_name_for column, idx_column = column\<rparr>
      in case tables D handle of
           None \<Rightarrow> (Rejected (Error ''Table not found''), D')
         | Some t \<Rightarrow>
             if find (\<lambda>i. idx_name i = idx_name new) (indices t) = None
             then (Fulfilled (),
                   D'\<lparr>tables := (tables D)(handle \<mapsto> t\<lparr>indices := indices t @ [new]\<rparr>)\<rparr>)
             else if replace
             then (Fulfilled (),
                   D'\<lparr>tables := (tables D)(handle \<mapsto>
                          t\<lparr>indices :=
                               filter (\<lambda>i. idx_name i \<noteq> idx_name new) (indices t) @ [new]\<rparr>)\<rparr>)
             else (Rejected (Error ''Index already exists''), D'))"

section \<open>The schema provisioner\<close>

text \<open>
  \<^verbatim>\<open>createNotesTable\<close> (lines 233-256). The result is how the returned promise settles (the
  table handle on success), with the database after the call.
\<close>

definition createNotesTable :: "string option \<Rightarrow> db \<Rightarrow> string settled \<times> db" where
  "createNotesTable overrideName D =
     (case createEmptyTable D (js_or overrideName ''notes'') of
        (Rejected e, D1) \<Rightarrow> (Rejected e, D1)
      | (Fulfilled notesTable, D1) \<Rightarrow>
          (case listIndices D1 notesTable of
             (Rejected e, D2) \<Rightarrow> (Rejected e, D2)
           | (Fulfilled idxs, D2) \<Rightarrow>
               if find (\<lambda>index. idx_name index = ''content_idx'') idxs = None
               then (case createIndex D2 notesTable ''content'' True of
                       (Rejected e, D3) \<Rightarrow> (Rejected e, D3)
                     | (Fulfilled u, D3) \<Rightarrow> (Fulfilled notesTable, D3))
               else (Fulfilled notesTable, D2)))"

section \<open>The hybrid search merger\<close>

text \<open>
  The two queries against the table are parameters: for a query and a limit, how the
  semantic search (\<^verbatim>\<open>vectorSearch(query, {topK: limit}).select(...).execute()\<close>) and the
  full-text search (\<^verbatim>\<open>search("content", query).select(...).limit(limit).execute()\<close>) settle.
\<close>

record search_table =
  vectorSearch :: "string \<Rightarrow> int \<Rightarrow> hit list settled"
  fullTextSearch :: "string \<Rightarrow> int \<Rightarrow> hit list settled"

text \<open>
  A JavaScript \<^verbatim>\<open>Map\<close> as its entries in insertion order. \<^verbatim>\<open>set\<close> on a key already present
  replaces the value and keeps the entry's position; on a new key it appends.
\<close>

fun map_set :: "('k \<times> 'v) list \<Rightarrow> 'k \<Rightarrow> 'v \<Rightarrow> ('k \<times> 'v) list" where
  "map_set [] k v = [(k, v)]"
| "map_set ((k', v') # m) k v =
     (if k' = k then (k', v) # m else (k', v') # map_set m k v)"

text \<open>\<^verbatim>\<open>new Map(entries)\<close>: the entries are set one after another, starting from the empty map.\<close>

definition new_Map :: "('k \<times> 'v) list \<Rightarrow> ('k \<times> 'v) list" where
  "new_Map entries = foldl (\<lambda>m kv. map_set m (fst kv) (snd kv)) [] entries"

definition map_values :: "('k \<times> 'v) list \<Rightarrow> 'v list" where
  "map_values m = map snd m"

text \<open>Lines 379-381: \<^verbatim>\<open>Array.from(new Map(allResults.map(item => [item.title, item])).values())\<close>.\<close>

definition uniqueResults :: "hit list \<Rightarrow> hit list" where
  "uniqueResults allResults = map_values (new_Map (map (\<lambda>item. (title item, item)) allResults))"

text \<open>The callback of \<^verbatim>\<open>results.map\<close> in \<^verbatim>\<open>processResults\<close> (lines 385-392).\<close>

definition render_entry :: "nat \<Rightarrow> nat \<times> hit \<Rightarrow> string" where
  "render_entry startRank p =
     (case p of (index, result) \<Rightarrow>
        (let rank = startRank + index;
             snippet = (if length (content result) > 300
                        then take 300 (content result) @ ''...''
                        else content result)
         in toString rank @ ''. **'' @ title result @ ''**'' @ nl @ snippet @ nl))"

definition rendered_entries :: "hit list \<Rightarrow> nat \<Rightarrow> string list" where
  "rendered_entries results startRank = map (render_entry startRank) (enumerate 0 results)"

definition processResults :: "hit list \<Rightarrow> nat \<Rightarrow> string" where
  "processResults results startRank = js_join nl (rendered_entries results startRank)"

text \<open>
  \<^verbatim>\<open>searchAndCombineResults\<close> (lines 359-399); \<open>None\<close> for the limit is the omitted argument,
  which defaults to 20. The two searches are awaited one after the other.
\<close>

definition searchAndCombineResults ::
  "search_table \<Rightarrow> string \<Rightarrow> int option \<Rightarrow> string settled" where
  "searchAndCombineResults notesTable query limit_arg =
     (let limit = (case limit_arg of None \<Rightarrow> 20 | Some k \<Rightarrow> k)
      in case vectorSearch notesTable query limit of
           Rejected e \<Rightarrow> Rejected e
         | Fulfilled semanticResults \<Rightarrow>
             (case fullTextSearch notesTable query limit of
                Rejected e \<Rightarrow> Rejected e
              | Fulfilled fullTextResults \<Rightarrow>
                  (let allResults = semanticResults @ fullTextResults;
                       uniq = uniqueResults allResults;
                       resultText = processResults (js_slice0 uniq limit) 1
                   in Fulfilled
                        (''Found '' @ toString (length uniq) @ '' notes matching '' @ dquote
                         @ query @ dquote @ '':'' @ nl @ nl @ resultText))))"

section \<open>The deduplication as the specification words it\<close>

text \<open>
  Section 4.4, step 3 of the specification: the first occurrence of each title wins the
  position and the last occurrence of each title wins the content.
\<close>

fun first_occurrences :: "'k list \<Rightarrow> 'k list" where
  "first_occurrences [] = []"
| "first_occurrences (k # ks) = k # filter (\<lambda>k'. k' \<noteq> k) (first_occurrences ks)"

definition last_with_title :: "hit list \<Rightarrow> string \<Rightarrow> hit" where
  "last_with_title hs t = last (filter (\<lambda>h. title h = t) hs)"

definition dedup_spec :: "hit list \<Rightarrow> hit list" where
  "dedup_spec hs = map (last_with_title hs) (first_occurrences (map title hs))"

section \<open>Sample inputs\<close>

text \<open>
  A Document Source with three titles, of which \<^verbatim>\<open>b\<close> is not found (its detail is \<^verbatim>\<open>{}\<close>), a
  converter that throws on the content of \<^verbatim>\<open>c\<close>, and a bulk insert that succeeds.
\<close>

definition sample_detail :: "string \<Rightarrow> detail" where
  "sample_detail t =
     \<lparr>title = Some t, content = Some (''<b>'' @ t @ ''</b>''),
      creation_date = Some ''2023-01-01'', modification_date = Some ''2023-01-02''\<rparr>"

definition sample_env :: env where
  "sample_env =
     \<lparr>jxa_titles = Fulfilled (Some [''a'', ''b'', ''c'']),
      jxa_note = (\<lambda>t. if t = ''b'' then Fulfilled empty_detail else Fulfilled (sample_detail t)),
      turndown =
        (\<lambda>s. if s = ''<b>c</b>'' then Thrown (Error ''bad markup'') else Returned (''md:'' @ s)),
      add_failure = (\<lambda>cs. None)\<rparr>"

definition empty_table :: table where
  "empty_table = \<lparr>rows = [], indices = []\<rparr>"

text \<open>The chunks of that source: \<^verbatim>\<open>a\<close> converted, \<^verbatim>\<open>c\<close> with its raw content.\<close>

definition sample_chunks :: "chunk list" where
  "sample_chunks =
     [\<lparr>title = Some ''a'', content = Some ''md:<b>a</b>'',
       creation_date = Some ''2023-01-01'', modification_date = Some ''2023-01-02'',
       id_chunk = ''0''\<rparr>,
      \<lparr>title = Some ''c'', content = Some ''<b>c</b>'',
       creation_date = Some ''2023-01-01'', modification_date = Some ''2023-01-02'',
       id_chunk = ''1''\<rparr>]"

text \<open>The same source, except that the detail fetch for \<^verbatim>\<open>b\<close> is rejected.\<close>

definition rejecting_env :: env where
  "rejecting_env =
     sample_env\<lparr>jxa_note :=
       (\<lambda>t. if t = ''b'' then Rejected (Error ''boom'') else Fulfilled (sample_detail t))\<rparr>"

text \<open>The same source, except that the title listing is rejected, or fulfilled without a value.\<close>

definition unlistable_env :: env where
  "unlistable_env = sample_env\<lparr>jxa_titles := Rejected (Error ''Notes is not running'')\<rparr>"

definition unlisted_env :: env where
  "unlisted_env = sample_env\<lparr>jxa_titles := Fulfilled None\<rparr>"

text \<open>Search hits, a content of 301 characters, and tables answering the two searches.\<close>

definition sample_hit :: "string \<Rightarrow> string \<Rightarrow> hit" where
  "sample_hit t c =
     \<lparr>title = t, content = c, creation_date = ''2023-01-01'',
      modification_date = ''2023-01-02''\<rparr>"

definition long_content :: string where
  "long_content = replicate 301 (CHR ''x'')"

definition overlap_table :: search_table where
  "overlap_table =
     \<lparr>vectorSearch =
        (\<lambda>query limit. Fulfilled [sample_hit ''A'' ''a'', sample_hit ''B'' ''semantic'']),
      fullTextSearch =
        (\<lambda>query limit. Fulfilled [sample_hit ''B'' ''lexical'', sample_hit ''C'' ''c''])\<rparr>"

definition no_hit_table :: search_table where
  "no_hit_table =
     \<lparr>vectorSearch = (\<lambda>query limit. Fulfilled []),
      fullTextSearch = (\<lambda>query limit. Fulfilled [])\<rparr>"

text \<open>
  A database whose notes table exists with an index of another name, and the same database
  after one provisioning.
\<close>

definition legacy_db :: db where
  "legacy_db =
     \<lparr>tables = [''notes'' \<mapsto>
         \<lparr>rows = [], indices = [\<lparr>idx_name = ''title_idx'', idx_column = ''title''\<rparr>]\<rparr>],
      calls = []\<rparr>"

definition provisioned_db :: db where
  "provisioned_db =
      \<lparr>tables = [''notes'' \<mapsto>
         \<lparr>rows = [],
          indices = [\<lparr>idx_name = ''title_idx'', idx_column = ''title''\<rparr>,
                     \<lparr>idx_name = ''content_idx'', idx_column = ''content''\<rparr>]\<rparr>],
       calls = [CreateEmptyTable ''notes'', ListIndices ''notes'',
                CreateIndex ''notes'' ''content'']\<rparr>"

section \<open>Auxiliary facts\<close>

subsection \<open>Decimal rendering\<close>

lemma digit_value_digit_char: "d < 10 \<Longrightarrow> digit_value (digit_char d) = d"
proof -
  assume "d < 10"
  then have "d \<in> {0,1,2,3,4,5,6,7,8,9}" by auto
  then show ?thesis
    by (auto simp: digit_value_def digit_char_def)
qed

lemma decimal_value_snoc: "decimal_value (s @ [c]) = 10 * decimal_value s + digit_value c"
  by (simp add: decimal_value_def)

lemma decimal_value_toString: "decimal_value (toString n) = n"
proof (induction n rule: toString.induct)
  case (1 n)
  show ?case
  proof (cases "n < 10")
    case True
    then show ?thesis
      using digit_value_digit_char[of n]
      by (subst toString.simps) (simp add: decimal_value_def)
  next
    case False
    with 1 have "decimal_value (toString (n div 10)) = n div 10" by simp
    with False show ?thesis
      using digit_value_digit_char[of "n mod 10"]
      by (subst toString.simps) (simp add: decimal_value_snoc)
  qed
qed

subsection \<open>Promises\<close>

lemma promise_all_map_Fulfilled: "promise_all (map Fulfilled vs) = Fulfilled vs"
  by (induction vs) simp_all

lemma promise_all_FulfilledD: "promise_all ps = Fulfilled vs \<Longrightarrow> ps = map Fulfilled vs"
  by (induction ps arbitrary: vs rule: promise_all.induct) (auto split: settled.splits)

lemma promise_all_Rejected_iff:
  "(\<exists>e. promise_all ps = Rejected e) \<longleftrightarrow> (\<exists>e. Rejected e \<in> set ps)"
  by (induction ps rule: promise_all.induct) (auto split: settled.splits)

subsection \<open>The fetch stage\<close>

text \<open>
  The \<^verbatim>\<open>catch\<close> branch of the fetch callback is never taken: the report comes out of the
  \<^verbatim>\<open>map\<close> as it went in, and the array holds the promises themselves.
\<close>

lemma fetch_all_eq: "fetch_all E rep ts = (rep, map (jxa_note E) ts)"
  by (induction ts arbitrary: rep) (simp_all add: getNoteDetailsByTitle_def)

lemma indexNotes_chunks_eq:
  "indexNotes_chunks E =
     (case jxa_titles E of
        Rejected e \<Rightarrow> Rejected e
      | Fulfilled listed \<Rightarrow>
          (case promise_all (map (jxa_note E) (or_nil listed)) of
             Rejected e \<Rightarrow> Rejected e
           | Fulfilled ds \<Rightarrow> Fulfilled (or_nil listed, [], build_chunks E ds)))"
  by (simp add: indexNotes_chunks_def getNotes_def fetch_all_eq split: settled.splits)

lemma indexNotes_chunks_FulfilledD:
  assumes "indexNotes_chunks E = Fulfilled (ts, rep, cs)"
  shows "\<exists>listed. jxa_titles E = Fulfilled listed \<and> ts = or_nil listed"
    and "rep = []"
    and "map (jxa_note E) ts = map Fulfilled (map (\<lambda>t. detail_of (jxa_note E t)) ts)"
    and "cs = build_chunks E (map (\<lambda>t. detail_of (jxa_note E t)) ts)"
proof -
  from assms obtain listed ds where l: "jxa_titles E = Fulfilled listed"
    and p: "promise_all (map (jxa_note E) (or_nil listed)) = Fulfilled ds"
    and r: "ts = or_nil listed" "rep = []" "cs = build_chunks E ds"
    by (auto simp: indexNotes_chunks_eq split: settled.splits)
  from p have m: "map (jxa_note E) ts = map Fulfilled ds"
    using r(1) by (simp add: promise_all_FulfilledD)
  then have "map detail_of (map (jxa_note E) ts) = map detail_of (map Fulfilled ds)" by simp
  then have ds: "ds = map (\<lambda>t. detail_of (jxa_note E t)) ts" by (simp add: comp_def)
  show "\<exists>listed. jxa_titles E = Fulfilled listed \<and> ts = or_nil listed" using l r by blast
  show "rep = []" by fact
  show "map (jxa_note E) ts = map Fulfilled (map (\<lambda>t. detail_of (jxa_note E t)) ts)"
    using m ds by simp
  show "cs = build_chunks E (map (\<lambda>t. detail_of (jxa_note E t)) ts)" using r ds by simp
qed

text \<open>In general: one rejected detail fetch rejects the whole run and leaves the table alone.\<close>

lemma rejected_fetch_rejects_run:
  assumes "jxa_titles E = Fulfilled listed" and "t \<in> set (or_nil listed)"
    and "jxa_note E t = Rejected e"
  shows "\<exists>e'. indexNotes E tbl = (Rejected e', tbl)"
proof -
  from assms(2,3) have "\<exists>e. Rejected e \<in> set (map (jxa_note E) (or_nil listed))"
    by (metis image_eqI list.set_map)
  then obtain e' where "promise_all (map (jxa_note E) (or_nil listed)) = Rejected e'"
    using promise_all_Rejected_iff by blast
  with assms(1) show ?thesis
    by (simp add: indexNotes_def indexNotes_chunks_eq)
qed

subsection \<open>The chunk stage\<close>

lemma title_normalize_node [simp]: "title (normalize_node E d) = title d"
  by (simp add: normalize_node_def split: completion.splits)

lemma dates_normalize_node [simp]:
  "creation_date (normalize_node E d) = creation_date d"
  "modification_date (normalize_node E d) = modification_date d"
  by (simp_all add: normalize_node_def split: completion.splits)

lemma content_normalize_node:
  "content (normalize_node E d) =
     (case turndown E (js_or (content d) []) of Returned md \<Rightarrow> Some md | Thrown e \<Rightarrow> content d)"
  by (simp add: normalize_node_def split: completion.splits)

lemma map_make_chunk_fields:
  "map (\<lambda>p. title (make_chunk p)) (enumerate n xs) = map title xs"
  "map (\<lambda>p. content (make_chunk p)) (enumerate n xs) = map content xs"
  "map (\<lambda>p. creation_date (make_chunk p)) (enumerate n xs) = map creation_date xs"
  "map (\<lambda>p. modification_date (make_chunk p)) (enumerate n xs) = map modification_date xs"
  "map (\<lambda>p. id_chunk (make_chunk p)) (enumerate n xs) = map toString [n..<n + length xs]"
  by (induction xs arbitrary: n) (simp_all add: make_chunk_def upt_rec)

lemma length_build_chunks:
  "length (build_chunks E ds) = length (filter (\<lambda>d. truthy (title d)) ds)"
  by (simp add: build_chunks_def)

lemma build_chunks_fields:
  "map title (build_chunks E ds) = map title (filter (\<lambda>d. truthy (title d)) ds)"
  "map creation_date (build_chunks E ds) = map creation_date (filter (\<lambda>d. truthy (title d)) ds)"
  "map modification_date (build_chunks E ds) =
     map modification_date (filter (\<lambda>d. truthy (title d)) ds)"
  "map content (build_chunks E ds) =
     map (\<lambda>d. content (normalize_node E d)) (filter (\<lambda>d. truthy (title d)) ds)"
  "map id_chunk (build_chunks E ds) =
     map toString [0..<length (filter (\<lambda>d. truthy (title d)) ds)]"
  by (simp_all add: build_chunks_def map_make_chunk_fields comp_def)

subsection \<open>Evaluation on the sample inputs\<close>

lemmas indexNotes_eval =
  indexNotes_def indexNotes_chunks_def getNotes_def getNoteDetailsByTitle_def
  build_chunks_def normalize_node_def js_or_def make_chunk_def table_add_def
  toString.simps digit_char_def empty_detail_def

lemma indexNotes_sample:
  "indexNotes sample_env empty_table =
     (Fulfilled \<lparr>chunks = 2, report = [], allNotes = 3\<rparr>,
      \<lparr>rows = sample_chunks, indices = []\<rparr>)"
  by (simp add: indexNotes_eval sample_env_def sample_detail_def empty_table_def
      sample_chunks_def)

lemma indexNotes_chunks_sample:
  "indexNotes_chunks sample_env = Fulfilled ([''a'', ''b'', ''c''], [], sample_chunks)"
  by (simp add: indexNotes_eval sample_env_def sample_detail_def sample_chunks_def)

lemma survived_sample:
  "[''a'', ''c''] =
     filter (\<lambda>t. truthy (title (detail_of (jxa_note sample_env t)))) [''a'', ''b'', ''c'']"
  by (simp add: sample_env_def sample_detail_def empty_detail_def)

subsection \<open>The ordered map and the deduplication\<close>

lemma first_occurrences_snoc:
  "first_occurrences (ks @ [k]) =
     (if k \<in> set ks then first_occurrences ks else first_occurrences ks @ [k])"
proof (induction ks)
  case Nil
  show ?case by simp
next
  case (Cons a ks)
  have s: "set (first_occurrences xs) = set xs" for xs :: "'a list"
    by (induction xs) auto
  show ?case
  proof (cases "k = a")
    case True
    then show ?thesis using Cons by (auto simp: s filter_id_conv)
  next
    case False
    then show ?thesis using Cons by auto
  qed
qed

lemma set_first_occurrences [simp]: "set (first_occurrences xs) = set xs"
  by (induction xs) auto

lemma distinct_first_occurrences [simp]: "distinct (first_occurrences xs)"
  by (induction xs) auto

lemma map_set_entries:
  assumes "distinct ks"
  shows "map_set (map (\<lambda>t. (t, f t)) ks) k v =
     (if k \<in> set ks then map (\<lambda>t. (t, if t = k then v else f t)) ks
      else map (\<lambda>t. (t, f t)) ks @ [(k, v)])"
  using assms by (induction ks) auto

lemma new_Map_snoc: "new_Map (es @ [(k, v)]) = map_set (new_Map es) k v"
  by (simp add: new_Map_def)

lemma last_with_title_snoc:
  "last_with_title (hs @ [h]) t = (if title h = t then h else last_with_title hs t)"
  by (simp add: last_with_title_def)

lemma new_Map_titles:
  "new_Map (map (\<lambda>item. (title item, item)) hs) =
     map (\<lambda>t. (t, last_with_title hs t)) (first_occurrences (map title hs))"
proof (induction hs rule: rev_induct)
  case Nil
  show ?case by (simp add: new_Map_def)
next
  case (snoc h hs)
  let ?ks = "first_occurrences (map title hs)"
  have "new_Map (map (\<lambda>item. (title item, item)) (hs @ [h])) =
      map_set (map (\<lambda>t. (t, last_with_title hs t)) ?ks) (title h) h"
    using snoc by (simp add: new_Map_snoc)
  also have "\<dots> =
      (if title h \<in> set ?ks
       then map (\<lambda>t. (t, if t = title h then h else last_with_title hs t)) ?ks
       else map (\<lambda>t. (t, last_with_title hs t)) ?ks @ [(title h, h)])"
    by (rule map_set_entries) simp
  also have "\<dots> =
      map (\<lambda>t. (t, last_with_title (hs @ [h]) t)) (first_occurrences (map title (hs @ [h])))"
    by (auto simp: first_occurrences_snoc last_with_title_snoc)
  finally show ?case .
qed

lemma uniqueResults_dedup_spec: "uniqueResults hs = dedup_spec hs"
  by (simp add: uniqueResults_def map_values_def new_Map_titles dedup_spec_def comp_def)

text \<open>The specification's wording, read off: titles, kept record, and the worked example.\<close>

lemma title_last_with_title:
  assumes "t \<in> set (map title hs)"
  shows "title (last_with_title hs t) = t"
proof -
  from assms have ne: "filter (\<lambda>h. title h = t) hs \<noteq> []"
    by (auto simp: filter_empty_conv)
  from last_in_set [OF ne] show ?thesis
    by (simp add: last_with_title_def)
qed

lemma dedup_spec_titles: "map title (dedup_spec hs) = first_occurrences (map title hs)"
proof -
  have "map (\<lambda>t. title (last_with_title hs t)) (first_occurrences (map title hs)) =
      map (\<lambda>t. t) (first_occurrences (map title hs))"
    by (intro map_cong) (auto simp: title_last_with_title)
  then show ?thesis by (simp add: dedup_spec_def comp_def)
qed

lemma dedup_spec_last:
  assumes "h \<in> set (dedup_spec hs)"
  shows "h = last (filter (\<lambda>x. title x = title h) hs)"
proof -
  from assms obtain t where t: "t \<in> set (map title hs)" and h: "h = last_with_title hs t"
    by (auto simp: dedup_spec_def)
  from title_last_with_title [OF t] h have "title h = t" by simp
  with h show ?thesis by (simp add: last_with_title_def)
qed

lemma dedup_spec_overlap:
  assumes "title a \<noteq> title b" "title a \<noteq> title c" "title b \<noteq> title c" "title b' = title b"
  shows "dedup_spec ([a, b] @ [b', c]) = [a, b', c]"
  using assms by (simp add: dedup_spec_def last_with_title_def)

subsection \<open>Rendering\<close>

lemma length_rendered_entries [simp]: "length (rendered_entries rs k) = length rs"
  by (simp add: rendered_entries_def)

lemma rendered_entries_eq_Nil [simp]: "rendered_entries rs k = [] \<longleftrightarrow> rs = []"
  by (simp add: rendered_entries_def enumerate_eq_zip)

lemma nth_rendered_entries:
  "i < length rs \<Longrightarrow> rendered_entries rs k ! i = render_entry k (i, rs ! i)"
  by (simp add: rendered_entries_def nth_enumerate_eq)

lemma rendered_entries_snoc:
  "rendered_entries (rs @ [r]) k = rendered_entries rs k @ [render_entry k (length rs, r)]"
  by (simp add: rendered_entries_def enumerate_append_eq)

lemma js_join_snoc:
  "js_join sep (xs @ [x]) = (if xs = [] then x else js_join sep xs @ sep @ x)"
  by (induction sep xs rule: js_join.induct) auto

lemma js_slice0_nonneg: "0 \<le> k \<Longrightarrow> js_slice0 xs k = take (nat k) xs"
  by (auto simp: js_slice0_def Let_def min_def)

subsection \<open>Provisioning, by the state it starts in\<close>

lemma find_None_filter: "find P xs = None \<longleftrightarrow> filter P xs = []"
  by (induction xs) auto

lemma distinct_filter_one:
  "distinct (map f xs) \<Longrightarrow> find (\<lambda>x. f x = k) xs \<noteq> None \<Longrightarrow> length (filter (\<lambda>x. f x = k) xs) = 1"
proof (induction xs)
  case Nil
  then show ?case by simp
next
  case (Cons x xs)
  show ?case
  proof (cases "f x = k")
    case True
    have "f y \<noteq> k" if "y \<in> set xs" for y
      using that True Cons.prems(1) by (metis distinct.simps(2) imageI list.simps(9) list.set_map)
    then have "filter (\<lambda>y. f y = k) xs = []"
      by (simp add: filter_empty_conv)
    with True show ?thesis by simp
  next
    case False
    with Cons show ?thesis by simp
  qed
qed

lemma createNotesTable_absent:
  assumes "tables D (js_or overrideName ''notes'') = None"
  shows "createNotesTable overrideName D =
     (Fulfilled (js_or overrideName ''notes''),
      \<lparr>tables = (tables D)(js_or overrideName ''notes'' \<mapsto>
          \<lparr>rows = [], indices = [\<lparr>idx_name = ''content_idx'', idx_column = ''content''\<rparr>]\<rparr>),
       calls = calls D @ [CreateEmptyTable (js_or overrideName ''notes''),
                          ListIndices (js_or overrideName ''notes''),
                          CreateIndex (js_or overrideName ''notes'') ''content'']\<rparr>)"
  using assms
  by (simp add: createNotesTable_def createEmptyTable_def listIndices_def createIndex_def
      index_name_for_def Let_def)

lemma createNotesTable_unindexed:
  assumes "tables D (js_or overrideName ''notes'') = Some t"
    and "find (\<lambda>index. idx_name index = ''content_idx'') (indices t) = None"
  shows "createNotesTable overrideName D =
     (Fulfilled (js_or overrideName ''notes''),
      \<lparr>tables = (tables D)(js_or overrideName ''notes'' \<mapsto>
          t\<lparr>indices := indices t @ [\<lparr>idx_name = ''content_idx'', idx_column = ''content''\<rparr>]\<rparr>),
       calls = calls D @ [CreateEmptyTable (js_or overrideName ''notes''),
                          ListIndices (js_or overrideName ''notes''),
                          CreateIndex (js_or overrideName ''notes'') ''content'']\<rparr>)"
  using assms
  by (simp add: createNotesTable_def createEmptyTable_def listIndices_def createIndex_def
      index_name_for_def Let_def)

lemma createNotesTable_indexed:
  assumes "tables D (js_or overrideName ''notes'') = Some t"
    and "find (\<lambda>index. idx_name index = ''content_idx'') (indices t) \<noteq> None"
  shows "createNotesTable overrideName D =
     (Fulfilled (js_or overrideName ''notes''),
      D\<lparr>calls := calls D @ [CreateEmptyTable (js_or overrideName ''notes''),
                          ListIndices (js_or overrideName ''notes'')]\<rparr>)"
  using assms
  by (auto simp: createNotesTable_def createEmptyTable_def listIndices_def Let_def)

lemma legacy_first:
  "createNotesTable None legacy_db =
     (Fulfilled ''notes'',
      \<lparr>tables = [''notes'' \<mapsto>
         \<lparr>rows = [],
          indices = [\<lparr>idx_name = ''title_idx'', idx_column = ''title''\<rparr>,
                     \<lparr>idx_name = ''content_idx'', idx_column = ''content''\<rparr>]\<rparr>],
       calls = [CreateEmptyTable ''notes'', ListIndices ''notes'',
                CreateIndex ''notes'' ''content'']\<rparr>)"
  by (simp add: createNotesTable_def createEmptyTable_def listIndices_def createIndex_def
      index_name_for_def Let_def legacy_db_def js_or_def)

lemma provisioned_second:
  "createNotesTable None provisioned_db =
     (Fulfilled ''notes'',
      provisioned_db\<lparr>calls := calls provisioned_db @
         [CreateEmptyTable ''notes'', ListIndices ''notes'']\<rparr>)"
  by (simp add: createNotesTable_def createEmptyTable_def listIndices_def createIndex_def
      index_name_for_def Let_def provisioned_db_def js_or_def)

text \<open>
  Every operation of the engine, and so \<^verbatim>\<open>createNotesTable\<close>, keeps the index names of each
  table distinct; a database built from the empty one by these operations has that property.
\<close>

lemma createEmptyTable_distinct:
  assumes "\<forall>n t. tables D n = Some t \<longrightarrow> distinct (map idx_name (indices t))"
    and "createEmptyTable D name = (r, D')"
  shows "\<forall>n t. tables D' n = Some t \<longrightarrow> distinct (map idx_name (indices t))"
  using assms by (auto simp: createEmptyTable_def Let_def split: option.splits if_splits)

lemma createIndex_distinct:
  assumes "\<forall>n t. tables D n = Some t \<longrightarrow> distinct (map idx_name (indices t))"
    and "createIndex D handle column replace = (r, D')"
  shows "\<forall>n t. tables D' n = Some t \<longrightarrow> distinct (map idx_name (indices t))"
  using assms
  by (auto simp: createIndex_def Let_def find_None_iff distinct_map_filter
      split: option.splits if_splits) blast

lemma createNotesTable_distinct:
  assumes "\<forall>n t. tables D n = Some t \<longrightarrow> distinct (map idx_name (indices t))"
    and "createNotesTable overrideName D = (r, D')"
  shows "\<forall>n t. tables D' n = Some t \<longrightarrow> distinct (map idx_name (indices t))"
proof -
  obtain r1 D1 where c1: "createEmptyTable D (js_or overrideName ''notes'') = (r1, D1)"
    by force
  note i1 = createEmptyTable_distinct [OF assms(1) c1]
  have l: "\<forall>n t. tables D2 n = Some t \<longrightarrow> distinct (map idx_name (indices t))"
    if "listIndices D1 h = (r2, D2)" for h r2 D2
    using that i1 by (auto simp: listIndices_def Let_def split: option.splits)
  show ?thesis
  proof (cases r1)
    case (Rejected e)
    with c1 assms(2) i1 show ?thesis by (simp add: createNotesTable_def)
  next
    case (Fulfilled h)
    obtain r2 D2 where c2: "listIndices D1 h = (r2, D2)" by force
    note i2 = l [OF c2]
    show ?thesis
    proof (cases r2)
      case (Rejected e)
      with c1 c2 Fulfilled assms(2) i2 show ?thesis by (simp add: createNotesTable_def)
    next
      case f2: (Fulfilled idxs)
      obtain r3 D3 where c3: "createIndex D2 h ''content'' True = (r3, D3)" by force
      note i3 = createIndex_distinct [OF i2 c3]
      from c1 c2 c3 Fulfilled f2 assms(2) i2 i3 show ?thesis
        by (cases r3) (auto simp: createNotesTable_def split: if_splits)
    qed
  qed
qed

section \<open>The indexing pipeline: claims\<close>

text \<open>
  Claim C1 (fault isolation of the detail fetch). The claim says that when the fetch for exactly
  one title fails, the other titles are still indexed and the report holds one error line
  for the failed title. The source does not do this: \<^verbatim>\<open>getNoteDetailsByTitle\<close> is an async
  function whose promise is returned from inside the \<^verbatim>\<open>try\<close> without \<^verbatim>\<open>await\<close>, so its
  rejection is not caught there and rejects \<^verbatim>\<open>Promise.all\<close>. On the sample source with the
  fetch for \<^verbatim>\<open>b\<close> rejected, no chunk list reaches the bulk insert, the run is rejected with
  the fetch's error, and the table is left as it was; the titles \<^verbatim>\<open>a\<close> and \<^verbatim>\<open>c\<close> are not
  indexed and no report is returned.
\<close>

theorem indexNotes_rejected_fetch_aborts:
  "indexNotes_chunks rejecting_env = Rejected (Error ''boom'') \<and>
   indexNotes rejecting_env empty_table = (Rejected (Error ''boom''), empty_table)"
  by (simp add: indexNotes_eval rejecting_env_def sample_env_def sample_detail_def
      empty_table_def)

text \<open>
  Claim C8 as stated (a missing or failed title listing is treated as an empty list and the
  run completes with \<^verbatim>\<open>allNotes = 0\<close> and \<^verbatim>\<open>chunks = 0\<close>) fails for a failed listing: when the
  promise of \<^verbatim>\<open>getNotes\<close> is rejected, the \<^verbatim>\<open>await\<close> on line 191 throws before \<^verbatim>\<open>|| []\<close> is
  evaluated, and the run is rejected with that error.
\<close>

theorem indexNotes_failed_listing_counterexample:
  "getNotes unlistable_env = Rejected (Error ''Notes is not running'') \<and>
   indexNotes unlistable_env empty_table =
     (Rejected (Error ''Notes is not running''), empty_table)"
  by (simp add: indexNotes_eval unlistable_env_def sample_env_def)

text \<open>
  Claim C8, amended. When the title listing is fulfilled with a missing value, \<^verbatim>\<open>indexNotes\<close>
  treats it as the empty title list and, the bulk insert of the empty chunk list succeeding,
  returns a report with \<^verbatim>\<open>allNotes = 0\<close> and \<^verbatim>\<open>chunks = 0\<close>, the table unchanged. When the
  listing call itself fails, the run is rejected with the listing's error.
\<close>

theorem indexNotes_missing_titles:
  "(jxa_titles E = Fulfilled None \<longrightarrow> add_failure E [] = None \<longrightarrow>
      indexNotes E tbl = (Fulfilled \<lparr>chunks = 0, report = [], allNotes = 0\<rparr>, tbl)) \<and>
   (jxa_titles E = Rejected e \<longrightarrow> indexNotes E tbl = (Rejected e, tbl))"
  by (simp add: indexNotes_def indexNotes_chunks_eq build_chunks_def table_add_def)

theorem indexNotes_missing_titles_witness:
  "jxa_titles unlisted_env = Fulfilled None \<and> add_failure unlisted_env [] = None \<and>
   indexNotes unlisted_env empty_table =
     (Fulfilled \<lparr>chunks = 0, report = [], allNotes = 0\<rparr>, empty_table) \<and>
   jxa_titles unlistable_env = Rejected (Error ''Notes is not running'') \<and>
   indexNotes unlistable_env empty_table =
     (Rejected (Error ''Notes is not running''), empty_table)"
  using indexNotes_missing_titles [of unlisted_env empty_table "Error ''x''"]
    indexNotes_missing_titles [of unlistable_env empty_table "Error ''Notes is not running''"]
  by (simp add: unlisted_env_def unlistable_env_def sample_env_def)

text \<open>
  Claim C10 (implicit). Whenever \<^verbatim>\<open>indexNotes\<close> returns a report rather than failing, the
  \<^verbatim>\<open>report\<close> string of that report is empty: no error line is appended on a completed run.
\<close>

theorem indexNotes_report_empty:
  "indexNotes E tbl = (Fulfilled r, tbl') \<Longrightarrow> report r = []"
  by (auto simp: indexNotes_def table_add_def dest: indexNotes_chunks_FulfilledD(2)
      split: settled.splits prod.splits option.splits)

theorem indexNotes_report_empty_witness:
  "indexNotes sample_env empty_table =
     (Fulfilled \<lparr>chunks = 2, report = [], allNotes = 3\<rparr>,
      \<lparr>rows = sample_chunks, indices = []\<rparr>) \<and>
   report \<lparr>chunks = 2, report = [], allNotes = 3\<rparr> = []"
  using indexNotes_report_empty [OF indexNotes_sample] indexNotes_sample by simp

text \<open>
  Claim C3 (order preservation). When \<^verbatim>\<open>indexNotes\<close> reaches the bulk insert, the chunk list
  it hands over corresponds, position by position, to the subsequence of the listed titles
  whose fetched detail has a non-empty title, in the original relative order: the chunk at
  position \<open>i\<close> carries the title and dates of the detail of the \<open>i\<close>-th surviving title, and
  its id is the decimal string of \<open>i\<close>, counted from zero. When the insert succeeds, the
  chunks are appended to the table in that order; nothing is sorted.
\<close>

theorem indexNotes_order_preserved:
  assumes "indexNotes_chunks E = Fulfilled (all_titles, rep, cs)"
    and "survived = filter (\<lambda>t. truthy (title (detail_of (jxa_note E t)))) all_titles"
  shows "(\<exists>listed. getNotes E = Fulfilled listed \<and> all_titles = or_nil listed) \<and>
         length cs = length survived \<and>
         (\<forall>i<length survived.
            id_chunk (cs ! i) = toString i \<and>
            decimal_value (id_chunk (cs ! i)) = i \<and>
            title (cs ! i) = title (detail_of (jxa_note E (survived ! i))) \<and>
            creation_date (cs ! i) = creation_date (detail_of (jxa_note E (survived ! i))) \<and>
            modification_date (cs ! i) =
              modification_date (detail_of (jxa_note E (survived ! i)))) \<and>
         (add_failure E cs = None \<longrightarrow>
            indexNotes E tbl =
              (Fulfilled \<lparr>chunks = length cs, report = rep, allNotes = length all_titles\<rparr>,
               tbl\<lparr>rows := rows tbl @ cs\<rparr>))"
proof -
  let ?ds = "map (\<lambda>t. detail_of (jxa_note E t)) all_titles"
  let ?kept = "filter (\<lambda>d. truthy (title d)) ?ds"
  note D = indexNotes_chunks_FulfilledD [OF assms(1)]
  have kept: "?kept = map (\<lambda>t. detail_of (jxa_note E t)) survived"
    by (simp add: assms(2) filter_map comp_def)
  have len: "length cs = length survived"
    using D(4) kept by (simp add: length_build_chunks)
  have ids: "map id_chunk cs = map toString [0..<length survived]"
    using D(4) kept by (simp add: build_chunks_fields(5))
  have ts: "map title cs = map (\<lambda>t. title (detail_of (jxa_note E t))) survived"
    using D(4) kept by (simp add: build_chunks_fields(1) comp_def)
  have cd: "map creation_date cs = map (\<lambda>t. creation_date (detail_of (jxa_note E t))) survived"
    using D(4) kept by (simp add: build_chunks_fields(2) comp_def)
  have md: "map modification_date cs =
      map (\<lambda>t. modification_date (detail_of (jxa_note E t))) survived"
    using D(4) kept by (simp add: build_chunks_fields(3) comp_def)
  have per: "id_chunk (cs ! i) = toString i \<and>
            decimal_value (id_chunk (cs ! i)) = i \<and>
            title (cs ! i) = title (detail_of (jxa_note E (survived ! i))) \<and>
            creation_date (cs ! i) = creation_date (detail_of (jxa_note E (survived ! i))) \<and>
            modification_date (cs ! i) =
              modification_date (detail_of (jxa_note E (survived ! i)))"
    if i: "i < length survived" for i
  proof -
    have "id_chunk (cs ! i) = map id_chunk cs ! i" using i len by simp
    also have "\<dots> = toString i" using i by (simp add: ids)
    finally have a: "id_chunk (cs ! i) = toString i" .
    have "title (cs ! i) = map title cs ! i" using i len by simp
    then have b: "title (cs ! i) = title (detail_of (jxa_note E (survived ! i)))"
      using i by (simp add: ts)
    have "creation_date (cs ! i) = map creation_date cs ! i" using i len by simp
    then have c: "creation_date (cs ! i) = creation_date (detail_of (jxa_note E (survived ! i)))"
      using i by (simp add: cd)
    have "modification_date (cs ! i) = map modification_date cs ! i" using i len by simp
    then have d: "modification_date (cs ! i) =
        modification_date (detail_of (jxa_note E (survived ! i)))"
      using i by (simp add: md)
    from a b c d show ?thesis by (simp add: decimal_value_toString)
  qed
  have listed: "\<exists>listed. getNotes E = Fulfilled listed \<and> all_titles = or_nil listed"
    using D(1) by (simp add: getNotes_def)
  have run: "add_failure E cs = None \<longrightarrow>
            indexNotes E tbl =
              (Fulfilled \<lparr>chunks = length cs, report = rep, allNotes = length all_titles\<rparr>,
               tbl\<lparr>rows := rows tbl @ cs\<rparr>)"
    using assms(1) by (simp add: indexNotes_def table_add_def)
  from listed len per run show ?thesis by blast
qed

theorem indexNotes_order_preserved_witness:
  "indexNotes_chunks sample_env = Fulfilled ([''a'', ''b'', ''c''], [], sample_chunks) \<and>
   [''a'', ''c''] =
     filter (\<lambda>t. truthy (title (detail_of (jxa_note sample_env t)))) [''a'', ''b'', ''c''] \<and>
   (1::nat) < length [''a'', ''c''] \<and>
   id_chunk (sample_chunks ! 1) = ''1'' \<and>
   decimal_value (id_chunk (sample_chunks ! 1)) = 1 \<and>
   title (sample_chunks ! 1) = Some ''c'' \<and>
   title (detail_of (jxa_note sample_env ([''a'', ''c''] ! 1))) = Some ''c'' \<and>
   add_failure sample_env sample_chunks = None \<and>
   indexNotes sample_env empty_table =
     (Fulfilled \<lparr>chunks = 2, report = [], allNotes = 3\<rparr>,
      empty_table\<lparr>rows := rows empty_table @ sample_chunks\<rparr>)"
proof -
  have af: "add_failure sample_env sample_chunks = None"
    by (simp add: sample_env_def)
  have len: "length sample_chunks = 2" "length [''a'', ''b'', ''c''] = 3"
    by (simp_all add: sample_chunks_def)
  have ts: "toString 1 = ''1''"
    by (simp add: toString.simps digit_char_def)
  have det: "title (detail_of (jxa_note sample_env ([''a'', ''c''] ! 1))) = Some ''c''"
    by (simp add: sample_env_def sample_detail_def)
  have one: "(1::nat) < length [''a'', ''c'']"
    by simp
  note T = indexNotes_order_preserved [OF indexNotes_chunks_sample survived_sample, of empty_table]
  note P = T [THEN conjunct2, THEN conjunct2, THEN conjunct1, rule_format, OF one]
  note R = T [THEN conjunct2, THEN conjunct2, THEN conjunct2, rule_format, OF af]
  have p1: "id_chunk (sample_chunks ! 1) = ''1''"
    using P [THEN conjunct1] ts by (simp only:)
  have p2: "decimal_value (id_chunk (sample_chunks ! 1)) = 1"
    by (rule P [THEN conjunct2, THEN conjunct1])
  have p3: "title (sample_chunks ! 1) = Some ''c''"
    using P [THEN conjunct2, THEN conjunct2, THEN conjunct1] det by (simp only:)
  from R have r: "indexNotes sample_env empty_table =
     (Fulfilled \<lparr>chunks = 2, report = [], allNotes = 3\<rparr>,
      empty_table\<lparr>rows := rows empty_table @ sample_chunks\<rparr>)"
    by (simp add: len)
  from indexNotes_chunks_sample survived_sample one p1 p2 p3 det af r
  show ?thesis by (intro conjI)
qed

text \<open>
  Claim C4 (normalizer failures are absorbed). Whatever the converter does, a run whose
  listing and detail fetches are fulfilled and whose bulk insert succeeds is fulfilled, and
  it indexes every detail with a non-empty title, in order: the chunk's content is the
  detail's raw content, unchanged, when the converter throws on it, and the converted text
  when the converter returns.
\<close>

theorem normalizer_failure_absorbed:
  assumes "getNotes E = Fulfilled listed"
    and "\<forall>t\<in>set (or_nil listed). jxa_note E t = Fulfilled (fetched t)"
    and "\<forall>cs. add_failure E cs = None"
    and "kept = filter (\<lambda>d. truthy (title d)) (map fetched (or_nil listed))"
  shows "\<exists>cs. indexNotes E tbl =
           (Fulfilled \<lparr>chunks = length kept, report = [], allNotes = length (or_nil listed)\<rparr>,
            tbl\<lparr>rows := rows tbl @ cs\<rparr>) \<and>
         map title cs = map title kept \<and>
         map content cs =
           map (\<lambda>d. case turndown E (js_or (content d) []) of
                      Thrown e \<Rightarrow> content d
                    | Returned md \<Rightarrow> Some md) kept"
proof -
  let ?ts = "or_nil listed"
  have "map (jxa_note E) ?ts = map Fulfilled (map fetched ?ts)"
    using assms(2) by simp
  then have pa: "promise_all (map (jxa_note E) ?ts) = Fulfilled (map fetched ?ts)"
    by (simp only: promise_all_map_Fulfilled)
  let ?cs = "build_chunks E (map fetched ?ts)"
  have ch: "indexNotes_chunks E = Fulfilled (?ts, [], ?cs)"
    using assms(1) pa by (simp add: indexNotes_chunks_eq getNotes_def)
  have run: "indexNotes E tbl =
      (Fulfilled \<lparr>chunks = length kept, report = [], allNotes = length ?ts\<rparr>,
       tbl\<lparr>rows := rows tbl @ ?cs\<rparr>)"
    using ch assms(3,4) by (simp add: indexNotes_def table_add_def length_build_chunks)
  have t: "map title ?cs = map title kept"
    by (simp add: build_chunks_fields(1) assms(4))
  have c: "map content ?cs =
      map (\<lambda>d. case turndown E (js_or (content d) []) of
                 Thrown e \<Rightarrow> content d
               | Returned md \<Rightarrow> Some md) kept"
    by (simp add: build_chunks_fields(4) assms(4) content_normalize_node
        split: completion.splits cong: map_cong)
  from run t c show ?thesis by blast
qed

theorem normalizer_failure_absorbed_witness:
  "getNotes sample_env = Fulfilled (Some [''a'', ''b'', ''c'']) \<and>
   list_all (\<lambda>t. jxa_note sample_env t = Fulfilled (detail_of (jxa_note sample_env t)))
     (or_nil (Some [''a'', ''b'', ''c''])) \<and>
   (\<forall>cs. add_failure sample_env cs = None) \<and>
   [sample_detail ''a'', sample_detail ''c''] =
     filter (\<lambda>d. truthy (title d))
       (map (\<lambda>t. detail_of (jxa_note sample_env t)) (or_nil (Some [''a'', ''b'', ''c'']))) \<and>
   turndown sample_env (js_or (content (sample_detail ''c'')) []) = Thrown (Error ''bad markup'') \<and>
   turndown sample_env (js_or (content (sample_detail ''a'')) []) = Returned ''md:<b>a</b>'' \<and>
   (\<exists>cs. indexNotes sample_env empty_table =
           (Fulfilled \<lparr>chunks = 2, report = [], allNotes = 3\<rparr>,
            empty_table\<lparr>rows := rows empty_table @ cs\<rparr>) \<and>
         map title cs = [Some ''a'', Some ''c''] \<and>
         map content cs = [Some ''md:<b>a</b>'', Some ''<b>c</b>''])"
proof -
  have h1: "getNotes sample_env = Fulfilled (Some [''a'', ''b'', ''c''])"
    by (simp add: getNotes_def sample_env_def)
  have h2: "\<forall>t\<in>set (or_nil (Some [''a'', ''b'', ''c''])).
      jxa_note sample_env t = Fulfilled (detail_of (jxa_note sample_env t))"
    by (simp add: sample_env_def)
  have h3: "\<forall>cs. add_failure sample_env cs = None"
    by (simp add: sample_env_def)
  have h4: "[sample_detail ''a'', sample_detail ''c''] =
     filter (\<lambda>d. truthy (title d))
       (map (\<lambda>t. detail_of (jxa_note sample_env t)) (or_nil (Some [''a'', ''b'', ''c''])))"
    by (simp add: sample_env_def sample_detail_def empty_detail_def)
  have t1: "turndown sample_env (js_or (content (sample_detail ''c'')) []) =
      Thrown (Error ''bad markup'')"
    by (simp add: sample_env_def sample_detail_def js_or_def)
  have t2: "turndown sample_env (js_or (content (sample_detail ''a'')) []) =
      Returned ''md:<b>a</b>''"
    by (simp add: sample_env_def sample_detail_def js_or_def)
  have fields: "map title [sample_detail ''a'', sample_detail ''c''] = [Some ''a'', Some ''c'']"
    "content (sample_detail ''a'') = Some ''<b>a</b>''"
    "content (sample_detail ''c'') = Some ''<b>c</b>''"
    by (simp_all add: sample_detail_def)
  from normalizer_failure_absorbed [OF h1 h2 h3 h4, of empty_table]
  have "\<exists>cs. indexNotes sample_env empty_table =
           (Fulfilled \<lparr>chunks = 2, report = [], allNotes = 3\<rparr>,
            empty_table\<lparr>rows := rows empty_table @ cs\<rparr>) \<and>
         map title cs = [Some ''a'', Some ''c''] \<and>
         map content cs = [Some ''md:<b>a</b>'', Some ''<b>c</b>'']"
    by (simp add: sample_env_def sample_detail_def js_or_def numeral_2_eq_2 numeral_3_eq_3)
  moreover have "list_all
      (\<lambda>t. jxa_note sample_env t = Fulfilled (detail_of (jxa_note sample_env t)))
      (or_nil (Some [''a'', ''b'', ''c'']))"
    using h2 by (simp only: list_all_iff)
  ultimately show ?thesis
    using h1 h3 h4 t1 t2 by blast
qed

text \<open>
  Claim C9 (invariants). Every chunk that \<^verbatim>\<open>indexNotes\<close> hands to the bulk insert has a
  non-empty title and there are at most as many chunks as listed titles; on a completed run
  the reported counts satisfy \<^verbatim>\<open>chunks \<le> allNotes\<close> and the rows added to the table are
  \<^verbatim>\<open>chunks\<close> many, each with a non-empty title.
\<close>

theorem indexNotes_chunks_titled:
  "(indexNotes_chunks E = Fulfilled (all_titles, rep, cs) \<longrightarrow>
      (\<forall>c\<in>set cs. truthy (title c)) \<and> length cs \<le> length all_titles) \<and>
   (indexNotes E tbl = (Fulfilled r, tbl') \<longrightarrow>
      chunks r \<le> allNotes r \<and>
      (\<exists>cs'. rows tbl' = rows tbl @ cs' \<and> length cs' = chunks r \<and>
             (\<forall>c\<in>set cs'. truthy (title c))))"
proof -
  have A: "(\<forall>c\<in>set cs. truthy (title c)) \<and> length cs \<le> length ts"
    if h: "indexNotes_chunks E = Fulfilled (ts, rep, cs)" for ts rep cs
  proof -
    let ?ds = "map (\<lambda>t. detail_of (jxa_note E t)) ts"
    note D = indexNotes_chunks_FulfilledD [OF h]
    have "set (map title cs) = set (map title (filter (\<lambda>d. truthy (title d)) ?ds))"
      using D(4) by (simp only: build_chunks_fields(1))
    then have "\<forall>x\<in>set (map title cs). truthy x" by auto
    then have 1: "\<forall>c\<in>set cs. truthy (title c)" by simp
    have "length cs = length (filter (\<lambda>d. truthy (title d)) ?ds)"
      using D(4) by (simp add: length_build_chunks)
    also have "\<dots> \<le> length ?ds" by (rule length_filter_le)
    finally have 2: "length cs \<le> length ts" by simp
    from 1 2 show ?thesis ..
  qed
  have B: "chunks r \<le> allNotes r \<and>
      (\<exists>cs'. rows tbl' = rows tbl @ cs' \<and> length cs' = chunks r \<and>
             (\<forall>c\<in>set cs'. truthy (title c)))"
    if h: "indexNotes E tbl = (Fulfilled r, tbl')"
  proof -
    from h obtain ts rep' cs' where c: "indexNotes_chunks E = Fulfilled (ts, rep', cs')"
      and r: "r = \<lparr>chunks = length cs', report = rep', allNotes = length ts\<rparr>"
      and t: "tbl' = tbl\<lparr>rows := rows tbl @ cs'\<rparr>"
      by (auto simp: indexNotes_def table_add_def
          split: settled.splits prod.splits option.splits)
    from A [OF c] r t show ?thesis by auto
  qed
  from A B show ?thesis by blast
qed

theorem indexNotes_chunks_titled_witness:
  "indexNotes_chunks sample_env = Fulfilled ([''a'', ''b'', ''c''], [], sample_chunks) \<and>
   list_all (\<lambda>c. truthy (title c)) sample_chunks \<and>
   length sample_chunks \<le> length [''a'', ''b'', ''c''] \<and>
   indexNotes sample_env empty_table =
     (Fulfilled \<lparr>chunks = 2, report = [], allNotes = 3\<rparr>,
      \<lparr>rows = sample_chunks, indices = []\<rparr>) \<and>
   chunks \<lparr>chunks = 2, report = [], allNotes = 3\<rparr>
     \<le> allNotes \<lparr>chunks = 2, report = [], allNotes = 3\<rparr>"
  using indexNotes_chunks_titled
    [of sample_env "[''a'', ''b'', ''c'']" "[]" sample_chunks empty_table
        "\<lparr>chunks = 2, report = [], allNotes = 3\<rparr>" "\<lparr>rows = sample_chunks, indices = []\<rparr>"]
    indexNotes_chunks_sample indexNotes_sample
  by (simp add: list_all_iff)

section \<open>The hybrid search merger: claims\<close>

text \<open>
  Claim C2 (deduplication). When both searches are fulfilled, \<^verbatim>\<open>searchAndCombineResults\<close>
  reports on the deduplication of the concatenation of the semantic hits followed by the
  lexical hits: the header counts, and the body renders (up to the limit), the sequence
  \<open>merged\<close> in which the titles appear in the order of their first occurrences in that
  concatenation and the record kept for a title is its last occurrence there. In particular,
  for semantic hits \<open>[a, b]\<close> and lexical hits \<open>[b', c]\<close> with three distinct titles, \<open>b'\<close>
  having the title of \<open>b\<close>, the sequence is \<open>[a, b', c]\<close> (the position of \<open>b\<close> with the
  lexical copy's content), and with a limit of at least 3 the report is the header for 3
  notes followed by the rendering of \<open>[a, b', c]\<close>.
\<close>

theorem searchAndCombineResults_dedup:
  assumes "limit = (case limit_arg of None \<Rightarrow> 20 | Some k \<Rightarrow> k)"
    and "vectorSearch notesTable query limit = Fulfilled semanticResults"
    and "fullTextSearch notesTable query limit = Fulfilled fullTextResults"
    and "merged = dedup_spec (semanticResults @ fullTextResults)"
  shows "searchAndCombineResults notesTable query limit_arg =
           Fulfilled
             (''Found '' @ toString (length merged) @ '' notes matching '' @ dquote @ query
              @ dquote @ '':'' @ nl @ nl @ processResults (js_slice0 merged limit) 1) \<and>
         map title merged =
           first_occurrences (map title semanticResults @ map title fullTextResults) \<and>
         (\<forall>h\<in>set merged.
            h = last (filter (\<lambda>x. title x = title h) (semanticResults @ fullTextResults))) \<and>
         (semanticResults = [a, b] \<and> fullTextResults = [b', c] \<and>
          title a \<noteq> title b \<and> title a \<noteq> title c \<and> title b \<noteq> title c \<and> title b' = title b \<longrightarrow>
            merged = [a, b', c] \<and>
            (3 \<le> limit \<longrightarrow>
               searchAndCombineResults notesTable query limit_arg =
                 Fulfilled
                   (''Found 3 notes matching '' @ dquote @ query @ dquote @ '':'' @ nl @ nl
                    @ processResults [a, b', c] 1)))"
proof -
  have run: "searchAndCombineResults notesTable query limit_arg =
           Fulfilled
             (''Found '' @ toString (length merged) @ '' notes matching '' @ dquote @ query
              @ dquote @ '':'' @ nl @ nl @ processResults (js_slice0 merged limit) 1)"
    using assms by (simp add: searchAndCombineResults_def Let_def uniqueResults_dedup_spec)
  have ts: "map title merged =
      first_occurrences (map title semanticResults @ map title fullTextResults)"
    using assms(4) dedup_spec_titles [of "semanticResults @ fullTextResults"] by simp
  have lst: "\<forall>h\<in>set merged.
      h = last (filter (\<lambda>x. title x = title h) (semanticResults @ fullTextResults))"
    using assms(4) dedup_spec_last by blast
  have ex: "merged = [a, b', c] \<and>
            (3 \<le> limit \<longrightarrow>
               searchAndCombineResults notesTable query limit_arg =
                 Fulfilled
                   (''Found 3 notes matching '' @ dquote @ query @ dquote @ '':'' @ nl @ nl
                    @ processResults [a, b', c] 1))"
    if h: "semanticResults = [a, b] \<and> fullTextResults = [b', c] \<and>
          title a \<noteq> title b \<and> title a \<noteq> title c \<and> title b \<noteq> title c \<and> title b' = title b"
  proof -
    from h assms(4) have m: "merged = [a, b', c]"
      using dedup_spec_overlap [of a b c b'] by simp
    have t3: "toString (length [a, b', c]) = ''3''"
      by (simp add: toString.simps digit_char_def)
    have sl: "js_slice0 [a, b', c] limit = [a, b', c]" if "3 \<le> limit"
      using that by (simp add: js_slice0_nonneg)
    from run m t3 sl show ?thesis by simp
  qed
  from run ts lst ex show ?thesis by blast
qed

theorem searchAndCombineResults_dedup_witness:
  "(20::int) = (case None of None \<Rightarrow> 20 | Some k \<Rightarrow> k) \<and>
   vectorSearch overlap_table ''q'' 20 =
     Fulfilled [sample_hit ''A'' ''a'', sample_hit ''B'' ''semantic''] \<and>
   fullTextSearch overlap_table ''q'' 20 =
     Fulfilled [sample_hit ''B'' ''lexical'', sample_hit ''C'' ''c''] \<and>
   title (sample_hit ''A'' ''a'') \<noteq> title (sample_hit ''B'' ''semantic'') \<and>
   title (sample_hit ''A'' ''a'') \<noteq> title (sample_hit ''C'' ''c'') \<and>
   title (sample_hit ''B'' ''semantic'') \<noteq> title (sample_hit ''C'' ''c'') \<and>
   title (sample_hit ''B'' ''lexical'') = title (sample_hit ''B'' ''semantic'') \<and>
   (3::int) \<le> 20 \<and>
   dedup_spec
     ([sample_hit ''A'' ''a'', sample_hit ''B'' ''semantic''] @
      [sample_hit ''B'' ''lexical'', sample_hit ''C'' ''c'']) =
     [sample_hit ''A'' ''a'', sample_hit ''B'' ''lexical'', sample_hit ''C'' ''c''] \<and>
   searchAndCombineResults overlap_table ''q'' None =
     Fulfilled
       (''Found 3 notes matching '' @ dquote @ ''q'' @ dquote @ '':'' @ nl @ nl
        @ ''1. **A**'' @ nl @ ''a'' @ nl @ nl
        @ ''2. **B**'' @ nl @ ''lexical'' @ nl @ nl
        @ ''3. **C**'' @ nl @ ''c'' @ nl)"
proof -
  let ?a = "sample_hit ''A'' ''a''"
  let ?b = "sample_hit ''B'' ''semantic''"
  let ?b' = "sample_hit ''B'' ''lexical''"
  let ?c = "sample_hit ''C'' ''c''"
  have a1: "(20::int) = (case None of None \<Rightarrow> 20 | Some k \<Rightarrow> k)" by simp
  have a2: "vectorSearch overlap_table ''q'' 20 = Fulfilled [?a, ?b]"
    by (simp add: overlap_table_def)
  have a3: "fullTextSearch overlap_table ''q'' 20 = Fulfilled [?b', ?c]"
    by (simp add: overlap_table_def)
  have d: "title ?a \<noteq> title ?b" "title ?a \<noteq> title ?c" "title ?b \<noteq> title ?c"
    "title ?b' = title ?b"
    by (simp_all add: sample_hit_def)
  have l: "(3::int) \<le> 20" by simp
  have pre: "[?a, ?b] = [?a, ?b] \<and> [?b', ?c] = [?b', ?c] \<and>
      title ?a \<noteq> title ?b \<and> title ?a \<noteq> title ?c \<and> title ?b \<noteq> title ?c \<and>
      title ?b' = title ?b"
    using d by simp
  note T = searchAndCombineResults_dedup [OF a1 a2 a3 refl, of ?a ?b ?b' ?c]
  note X = T [THEN conjunct2, THEN conjunct2, THEN conjunct2, rule_format, OF pre]
  note m = X [THEN conjunct1]
  note r = X [THEN conjunct2, rule_format, OF l]
  have p: "processResults [?a, ?b', ?c] 1 =
      ''1. **A**'' @ nl @ ''a'' @ nl @ nl
        @ ''2. **B**'' @ nl @ ''lexical'' @ nl @ nl
        @ ''3. **C**'' @ nl @ ''c'' @ nl"
    by (simp add: processResults_def rendered_entries_def render_entry_def sample_hit_def
        toString.simps digit_char_def)
  have r': "searchAndCombineResults overlap_table ''q'' None =
     Fulfilled
       (''Found 3 notes matching '' @ dquote @ ''q'' @ dquote @ '':'' @ nl @ nl
        @ ''1. **A**'' @ nl @ ''a'' @ nl @ nl
        @ ''2. **B**'' @ nl @ ''lexical'' @ nl @ nl
        @ ''3. **C**'' @ nl @ ''c'' @ nl)"
    using r unfolding p by simp
  from a1 a2 a3 d l m r' show ?thesis by (intro conjI)
qed

text \<open>
  Claim C5 (limit enforcement). The limit is a count of entries. For every limit \<open>k \<ge> 0\<close> (the
  default 20 when the argument is omitted) and every pair of hit lists returned by the two
  searches, the report is the header \<^verbatim>\<open>Found N notes matching "query":\<close> and two newlines,
  where \<open>N\<close> is the length of the deduplicated sequence before truncation, followed by the
  rendering of the first \<open>k\<close> entries of that sequence, which are at most \<open>k\<close>. With no hit
  from either search the report is the header with \<open>N = 0\<close> and an empty body.
\<close>

theorem searchAndCombineResults_limit:
  assumes "limit = (case limit_arg of None \<Rightarrow> 20 | Some k \<Rightarrow> k)"
    and "vectorSearch notesTable query limit = Fulfilled semanticResults"
    and "fullTextSearch notesTable query limit = Fulfilled fullTextResults"
    and "uniq = uniqueResults (semanticResults @ fullTextResults)"
  shows "(0 \<le> limit \<longrightarrow>
           searchAndCombineResults notesTable query limit_arg =
             Fulfilled
               (''Found '' @ toString (length uniq) @ '' notes matching '' @ dquote @ query
                @ dquote @ '':'' @ nl @ nl
                @ js_join nl (rendered_entries (take (nat limit) uniq) 1)) \<and>
           int (length (rendered_entries (take (nat limit) uniq) 1)) \<le> limit) \<and>
         (semanticResults = [] \<and> fullTextResults = [] \<longrightarrow>
           searchAndCombineResults notesTable query limit_arg =
             Fulfilled
               (''Found 0 notes matching '' @ dquote @ query @ dquote @ '':'' @ nl @ nl))"
proof -
  have run: "searchAndCombineResults notesTable query limit_arg =
      Fulfilled
        (''Found '' @ toString (length uniq) @ '' notes matching '' @ dquote @ query
         @ dquote @ '':'' @ nl @ nl @ processResults (js_slice0 uniq limit) 1)"
    using assms by (simp add: searchAndCombineResults_def Let_def)
  have a: "searchAndCombineResults notesTable query limit_arg =
             Fulfilled
               (''Found '' @ toString (length uniq) @ '' notes matching '' @ dquote @ query
                @ dquote @ '':'' @ nl @ nl
                @ js_join nl (rendered_entries (take (nat limit) uniq) 1))"
    if "0 \<le> limit"
    using run that by (simp add: js_slice0_nonneg processResults_def)
  have b: "int (length (rendered_entries (take (nat limit) uniq) 1)) \<le> limit" if "0 \<le> limit"
    using that by simp
  have c: "searchAndCombineResults notesTable query limit_arg =
             Fulfilled
               (''Found 0 notes matching '' @ dquote @ query @ dquote @ '':'' @ nl @ nl)"
    if "semanticResults = [] \<and> fullTextResults = []"
  proof -
    from that assms(4) have "uniq = []"
      by (simp add: uniqueResults_def new_Map_def map_values_def)
    then show ?thesis
      using run by (simp add: js_slice0_def processResults_def rendered_entries_def
          toString.simps digit_char_def)
  qed
  from a b c show ?thesis by blast
qed

theorem searchAndCombineResults_limit_witness:
  "(2::int) = (case Some 2 of None \<Rightarrow> 20 | Some k \<Rightarrow> k) \<and>
   vectorSearch overlap_table ''q'' 2 =
     Fulfilled [sample_hit ''A'' ''a'', sample_hit ''B'' ''semantic''] \<and>
   fullTextSearch overlap_table ''q'' 2 =
     Fulfilled [sample_hit ''B'' ''lexical'', sample_hit ''C'' ''c''] \<and>
   (0::int) \<le> 2 \<and>
   length (uniqueResults
     ([sample_hit ''A'' ''a'', sample_hit ''B'' ''semantic''] @
      [sample_hit ''B'' ''lexical'', sample_hit ''C'' ''c''])) = 3 \<and>
   searchAndCombineResults overlap_table ''q'' (Some 2) =
     Fulfilled
       (''Found 3 notes matching '' @ dquote @ ''q'' @ dquote @ '':'' @ nl @ nl
        @ js_join nl [''1. **A**'' @ nl @ ''a'' @ nl, ''2. **B**'' @ nl @ ''lexical'' @ nl]) \<and>
   (20::int) = (case None of None \<Rightarrow> 20 | Some k \<Rightarrow> k) \<and>
   vectorSearch no_hit_table ''q'' 20 = Fulfilled [] \<and>
   fullTextSearch no_hit_table ''q'' 20 = Fulfilled [] \<and>
   searchAndCombineResults no_hit_table ''q'' None =
     Fulfilled (''Found 0 notes matching '' @ dquote @ ''q'' @ dquote @ '':'' @ nl @ nl)"
proof -
  let ?sem = "[sample_hit ''A'' ''a'', sample_hit ''B'' ''semantic'']"
  let ?lex = "[sample_hit ''B'' ''lexical'', sample_hit ''C'' ''c'']"
  have a1: "(2::int) = (case Some 2 of None \<Rightarrow> 20 | Some k \<Rightarrow> k)" by simp
  have a2: "vectorSearch overlap_table ''q'' 2 = Fulfilled ?sem"
    by (simp add: overlap_table_def)
  have a3: "fullTextSearch overlap_table ''q'' 2 = Fulfilled ?lex"
    by (simp add: overlap_table_def)
  have a4: "(0::int) \<le> 2" by simp
  have u: "uniqueResults (?sem @ ?lex) =
      [sample_hit ''A'' ''a'', sample_hit ''B'' ''lexical'', sample_hit ''C'' ''c'']"
    by (simp add: uniqueResults_def new_Map_def map_values_def sample_hit_def)
  have e: "rendered_entries
        (take (nat 2) [sample_hit ''A'' ''a'', sample_hit ''B'' ''lexical'', sample_hit ''C'' ''c''])
        1 =
      [''1. **A**'' @ nl @ ''a'' @ nl, ''2. **B**'' @ nl @ ''lexical'' @ nl]"
    by (simp add: rendered_entries_def render_entry_def sample_hit_def toString.simps
        digit_char_def)
  have t3: "toString (Suc (Suc (Suc 0))) = ''3''"
    by (simp add: toString.simps digit_char_def)
  note T = searchAndCombineResults_limit [OF a1 a2 a3 refl]
  from T [THEN conjunct1, rule_format, OF a4, THEN conjunct1]
  have r: "searchAndCombineResults overlap_table ''q'' (Some 2) =
     Fulfilled
       (''Found 3 notes matching '' @ dquote @ ''q'' @ dquote @ '':'' @ nl @ nl
        @ js_join nl [''1. **A**'' @ nl @ ''a'' @ nl, ''2. **B**'' @ nl @ ''lexical'' @ nl])"
    unfolding u e by (simp add: t3)
  have l: "length (uniqueResults (?sem @ ?lex)) = 3"
    unfolding u by simp
  have b1: "(20::int) = (case None of None \<Rightarrow> 20 | Some k \<Rightarrow> k)" by simp
  have b2: "vectorSearch no_hit_table ''q'' 20 = Fulfilled []"
    by (simp add: no_hit_table_def)
  have b3: "fullTextSearch no_hit_table ''q'' 20 = Fulfilled []"
    by (simp add: no_hit_table_def)
  note Z = searchAndCombineResults_limit [OF b1 b2 b3 refl]
  from Z [THEN conjunct2, rule_format]
  have z: "searchAndCombineResults no_hit_table ''q'' None =
     Fulfilled (''Found 0 notes matching '' @ dquote @ ''q'' @ dquote @ '':'' @ nl @ nl)"
    by simp
  from a1 a2 a3 a4 l r b1 b2 b3 z show ?thesis by (intro conjI)
qed

text \<open>
  Claim C6 (rendering). In a report starting at rank 1, the entry of the hit at position \<open>i\<close>
  (from zero) is the decimal rank \<open>i + 1\<close>, a dot and a space, the title between double
  asterisks, a newline, the snippet and a newline; the snippet is the content itself when it
  has at most 300 characters and otherwise its first 300 characters followed by three dots.
  The text is the entries joined by a newline, so that a blank line separates two entries.
\<close>

theorem processResults_entries:
  "length (rendered_entries results 1) = length results \<and>
   (\<forall>i<length results.
      rendered_entries results 1 ! i =
        toString (1 + i) @ ''. **'' @ title (results ! i) @ ''**'' @ nl @
        (if length (content (results ! i)) \<le> 300 then content (results ! i)
         else take 300 (content (results ! i)) @ ''...'') @ nl) \<and>
   processResults results 1 = js_join nl (rendered_entries results 1) \<and>
   processResults [] 1 = [] \<and>
   processResults [r] 1 = hd (rendered_entries [r] 1) \<and>
   (results \<noteq> [] \<longrightarrow>
      processResults (results @ [r]) 1 =
        processResults results 1 @ nl @ last (rendered_entries (results @ [r]) 1))"
proof -
  have per: "rendered_entries results 1 ! i =
        toString (1 + i) @ ''. **'' @ title (results ! i) @ ''**'' @ nl @
        (if length (content (results ! i)) \<le> 300 then content (results ! i)
         else take 300 (content (results ! i)) @ ''...'') @ nl"
    if "i < length results" for i
    using that by (simp add: nth_rendered_entries render_entry_def Let_def)
  have e: "processResults [] 1 = []" "processResults [r] 1 = hd (rendered_entries [r] 1)"
    by (simp_all add: processResults_def rendered_entries_def)
  have j: "processResults (results @ [r]) 1 =
        processResults results 1 @ nl @ last (rendered_entries (results @ [r]) 1)"
    if "results \<noteq> []"
    using that by (simp add: processResults_def rendered_entries_snoc js_join_snoc)
  from per e j show ?thesis
    by (simp add: processResults_def)
qed

theorem processResults_entries_witness:
  "(1::nat) < length [sample_hit ''A'' ''a'', sample_hit ''B'' long_content] \<and>
   length (content (sample_hit ''A'' ''a'')) = 1 \<and>
   length (content (sample_hit ''B'' long_content)) = 301 \<and>
   rendered_entries [sample_hit ''A'' ''a'', sample_hit ''B'' long_content] 1 ! 0 =
     ''1. **A**'' @ nl @ ''a'' @ nl \<and>
   rendered_entries [sample_hit ''A'' ''a'', sample_hit ''B'' long_content] 1 ! 1 =
     ''2. **B**'' @ nl @ replicate 300 (CHR ''x'') @ ''...'' @ nl \<and>
   [sample_hit ''A'' ''a''] \<noteq> [] \<and>
   processResults ([sample_hit ''A'' ''a''] @ [sample_hit ''B'' long_content]) 1 =
     (''1. **A**'' @ nl @ ''a'' @ nl) @ nl @
     (''2. **B**'' @ nl @ replicate 300 (CHR ''x'') @ ''...'' @ nl)"
proof -
  note T = processResults_entries
    [of "[sample_hit ''A'' ''a'', sample_hit ''B'' long_content]" "sample_hit ''B'' long_content"]
  note P = T [THEN conjunct2, THEN conjunct1, rule_format]
  have l: "(0::nat) < length [sample_hit ''A'' ''a'', sample_hit ''B'' long_content]"
    "(1::nat) < length [sample_hit ''A'' ''a'', sample_hit ''B'' long_content]"
    by simp_all
  have c: "length (content (sample_hit ''A'' ''a'')) = 1"
    "length (content (sample_hit ''B'' long_content)) = 301"
    by (simp_all add: sample_hit_def long_content_def)
  have ts: "toString (Suc 0) = ''1''" "toString (Suc (Suc 0)) = ''2''"
    by (simp_all add: toString.simps digit_char_def)
  have e0: "rendered_entries [sample_hit ''A'' ''a'', sample_hit ''B'' long_content] 1 ! 0 =
     ''1. **A**'' @ nl @ ''a'' @ nl"
    using P [OF l(1)] by (simp add: ts sample_hit_def)
  have e1: "rendered_entries [sample_hit ''A'' ''a'', sample_hit ''B'' long_content] 1 ! 1 =
     ''2. **B**'' @ nl @ replicate 300 (CHR ''x'') @ ''...'' @ nl"
    using P [OF l(2)] by (simp add: ts sample_hit_def long_content_def)
  have ne: "[sample_hit ''A'' ''a''] \<noteq> []" by simp
  have j: "processResults ([sample_hit ''A'' ''a''] @ [sample_hit ''B'' long_content]) 1 =
     (''1. **A**'' @ nl @ ''a'' @ nl) @ nl @
     (''2. **B**'' @ nl @ replicate 300 (CHR ''x'') @ ''...'' @ nl)"
    using processResults_entries [of "[sample_hit ''A'' ''a'']" "sample_hit ''B'' long_content"]
      e1
    by (simp add: processResults_def rendered_entries_def render_entry_def sample_hit_def
        toString.simps digit_char_def)
  from l(2) c e0 e1 ne j show ?thesis by (intro conjI)
qed

section \<open>The schema provisioner: claims\<close>

text \<open>
  Claim C7 (idempotent provisioning). On a database whose table of that name, if any, has
  distinctly named indices, two successive calls of \<^verbatim>\<open>createNotesTable\<close> with the same name
  both return the table's handle; after the first call the table exists with exactly one
  index named \<^verbatim>\<open>content_idx\<close>, its rows and its indices of other names as they were, and
  every other table as it was; the second call changes no table and makes no
  index-creation call. A first call that finds the index already there makes no
  index-creation call either and leaves the table as it was.
\<close>

theorem createNotesTable_idempotent:
  assumes n: "name = js_or overrideName ''notes''"
    and wf: "\<forall>t. tables D name = Some t \<longrightarrow> distinct (map idx_name (indices t))"
    and c1: "createNotesTable overrideName D = (r1, D1)"
    and c2: "createNotesTable overrideName D1 = (r2, D2)"
  shows "r1 = Fulfilled name \<and> r2 = Fulfilled name \<and>
     tables D2 = tables D1 \<and>
     calls D2 = calls D1 @ [CreateEmptyTable name, ListIndices name] \<and>
     (\<exists>t. tables D1 name = Some t \<and>
          length (filter (\<lambda>i. idx_name i = ''content_idx'') (indices t)) = 1 \<and>
          (\<forall>t0. tables D name = Some t0 \<longrightarrow>
             rows t = rows t0 \<and>
             filter (\<lambda>i. idx_name i \<noteq> ''content_idx'') (indices t) =
               filter (\<lambda>i. idx_name i \<noteq> ''content_idx'') (indices t0) \<and>
             (find (\<lambda>i. idx_name i = ''content_idx'') (indices t0) \<noteq> None \<longrightarrow>
                t = t0 \<and> calls D1 = calls D @ [CreateEmptyTable name, ListIndices name]))) \<and>
     (\<forall>n'. n' \<noteq> name \<longrightarrow> tables D1 n' = tables D n')"
proof -
  let ?c = "\<lambda>i. idx_name i = ''content_idx''"
  let ?new = "\<lparr>idx_name = ''content_idx'', idx_column = ''content''\<rparr>"
  have first: "r1 = Fulfilled name \<and>
     (\<exists>t. tables D1 name = Some t \<and> length (filter ?c (indices t)) = 1 \<and>
          (\<forall>t0. tables D name = Some t0 \<longrightarrow>
             rows t = rows t0 \<and>
             filter (\<lambda>i. idx_name i \<noteq> ''content_idx'') (indices t) =
               filter (\<lambda>i. idx_name i \<noteq> ''content_idx'') (indices t0) \<and>
             (find ?c (indices t0) \<noteq> None \<longrightarrow>
                t = t0 \<and> calls D1 = calls D @ [CreateEmptyTable name, ListIndices name]))) \<and>
     (\<forall>n'. n' \<noteq> name \<longrightarrow> tables D1 n' = tables D n')"
  proof (cases "tables D name")
    case None
    with createNotesTable_absent [of D overrideName] c1 n show ?thesis
      by auto
  next
    case (Some t0)
    show ?thesis
    proof (cases "find ?c (indices t0) = None")
      case True
      then have e: "filter ?c (indices t0) = []"
        by (simp add: find_None_filter)
      from createNotesTable_unindexed [of D overrideName t0] Some True c1 n e
      show ?thesis by auto
    next
      case False
      from wf Some have "distinct (map idx_name (indices t0))" by simp
      from distinct_filter_one [OF this False]
      have one: "length (filter ?c (indices t0)) = 1" .
      from createNotesTable_indexed [of D overrideName t0] Some False c1 n one
      show ?thesis by auto
    qed
  qed
  then obtain t where t: "tables D1 name = Some t" and one: "length (filter ?c (indices t)) = 1"
    by blast
  from one have "filter ?c (indices t) \<noteq> []" by auto
  then have "find ?c (indices t) \<noteq> None"
    by (simp add: find_None_filter)
  from createNotesTable_indexed [of D1 overrideName t] t this c2 n
  have second: "r2 = Fulfilled name \<and> tables D2 = tables D1 \<and>
      calls D2 = calls D1 @ [CreateEmptyTable name, ListIndices name]"
    by auto
  from first second show ?thesis by blast
qed

theorem createNotesTable_idempotent_witness:
  "''notes'' = js_or None ''notes'' \<and>
   tables legacy_db ''notes'' =
     Some \<lparr>rows = [], indices = [\<lparr>idx_name = ''title_idx'', idx_column = ''title''\<rparr>]\<rparr> \<and>
   distinct (map idx_name [\<lparr>idx_name = ''title_idx'', idx_column = ''title''\<rparr>]) \<and>
   createNotesTable None legacy_db = (Fulfilled ''notes'', provisioned_db) \<and>
   createNotesTable None provisioned_db =
     (Fulfilled ''notes'',
      provisioned_db\<lparr>calls := calls provisioned_db @
         [CreateEmptyTable ''notes'', ListIndices ''notes'']\<rparr>) \<and>
   tables (provisioned_db\<lparr>calls := calls provisioned_db @
         [CreateEmptyTable ''notes'', ListIndices ''notes'']\<rparr>) = tables provisioned_db \<and>
   (\<exists>t. tables provisioned_db ''notes'' = Some t \<and>
        length (filter (\<lambda>i. idx_name i = ''content_idx'') (indices t)) = 1 \<and>
        filter (\<lambda>i. idx_name i \<noteq> ''content_idx'') (indices t) =
          [\<lparr>idx_name = ''title_idx'', idx_column = ''title''\<rparr>])"
proof -
  have h1: "''notes'' = js_or None ''notes''"
    by (simp add: js_or_def)
  have h2: "\<forall>t. tables legacy_db ''notes'' = Some t \<longrightarrow> distinct (map idx_name (indices t))"
    by (simp add: legacy_db_def)
  have h3: "createNotesTable None legacy_db = (Fulfilled ''notes'', provisioned_db)"
    by (simp add: legacy_first provisioned_db_def)
  have l: "tables legacy_db ''notes'' =
     Some \<lparr>rows = [], indices = [\<lparr>idx_name = ''title_idx'', idx_column = ''title''\<rparr>]\<rparr>"
    by (simp add: legacy_db_def)
  have d: "distinct (map idx_name [\<lparr>idx_name = ''title_idx'', idx_column = ''title''\<rparr>])"
    by simp
  note T = createNotesTable_idempotent [OF h1 h2 h3 provisioned_second]
  from T have t1: "tables (provisioned_db\<lparr>calls := calls provisioned_db @
         [CreateEmptyTable ''notes'', ListIndices ''notes'']\<rparr>) = tables provisioned_db"
    by (elim conjE)
  from T l have t2: "\<exists>t. tables provisioned_db ''notes'' = Some t \<and>
        length (filter (\<lambda>i. idx_name i = ''content_idx'') (indices t)) = 1 \<and>
        filter (\<lambda>i. idx_name i \<noteq> ''content_idx'') (indices t) =
          [\<lparr>idx_name = ''title_idx'', idx_column = ''title''\<rparr>]"
    by auto
  from h1 l d h3 provisioned_second t1 t2 show ?thesis by (intro conjI)
qed

end
